theory Spec2Isabelle
  imports Main "HOL-Library.Word"
begin

section \<open>Go values as the marshaller sees them\<close>

text \<open>
  \<open>Convert\<close> receives a type-erased \<open>interface{}\<close> and dispatches on
  \<open>reflect.ValueOf(arg).Kind()\<close>. The model therefore needs Go's kinds, the printed form of a
  type (\<open>fmt.Sprintf("%T", arg)\<close>, \<open>reflect.Value.String\<close>) and type identity (the type
  assertions \<open>arg.(int)\<close>, \<open>arg.(map[string]interface{})\<close>).
\<close>

datatype Kind =
    Invalid | Bool | IntK | Int8 | Int16 | Int32 | Int64
  | Uint | Uint8 | Uint16 | Uint32 | Uint64 | Uintptr
  | Float32 | Float64 | Complex64 | Complex128
  | Array | Chan | Func | Interface | Map | Ptr | Slice | String | Struct | UnsafePointer

text \<open>
  \<open>reflect.Kind.String\<close>: the lower-case names of the kinds. (\<open>IntK\<close> is \<open>reflect.Int\<close>.)
\<close>

fun Kind_String :: "Kind \<Rightarrow> string" where
  "Kind_String Invalid = ''invalid''"
| "Kind_String Bool = ''bool''"
| "Kind_String IntK = ''int''"
| "Kind_String Int8 = ''int8''"
| "Kind_String Int16 = ''int16''"
| "Kind_String Int32 = ''int32''"
| "Kind_String Int64 = ''int64''"
| "Kind_String Uint = ''uint''"
| "Kind_String Uint8 = ''uint8''"
| "Kind_String Uint16 = ''uint16''"
| "Kind_String Uint32 = ''uint32''"
| "Kind_String Uint64 = ''uint64''"
| "Kind_String Uintptr = ''uintptr''"
| "Kind_String Float32 = ''float32''"
| "Kind_String Float64 = ''float64''"
| "Kind_String Complex64 = ''complex64''"
| "Kind_String Complex128 = ''complex128''"
| "Kind_String Array = ''array''"
| "Kind_String Chan = ''chan''"
| "Kind_String Func = ''func''"
| "Kind_String Interface = ''interface''"
| "Kind_String Map = ''map''"
| "Kind_String Ptr = ''ptr''"
| "Kind_String Slice = ''slice''"
| "Kind_String String = ''string''"
| "Kind_String Struct = ''struct''"
| "Kind_String UnsafePointer = ''unsafe.Pointer''"

text \<open>
  Types. \<open>Basic k\<close> is the predeclared type of a basic kind (its name is the kind's name);
  \<open>Named pkg name\<close> is a defined type, printed \<open>pkg.name\<close>; function and interface types carry
  their printed signature and method list.
\<close>

datatype go_type =
    Basic Kind
  | Named string string
  | PtrTo go_type
  | MapOf go_type go_type
  | SliceOf go_type
  | ArrayOf nat go_type
  | ChanOf go_type
  | FuncOf string
  | StructOf "(string \<times> go_type) list"
  | InterfaceOf string

fun digit :: "nat \<Rightarrow> char" where
  "digit n = char_of (48 + n)"

fun Itoa :: "nat \<Rightarrow> string" where
  "Itoa n = (if n < 10 then [digit n] else Itoa (n div 10) @ [digit (n mod 10)])"

fun join_fields :: "string list \<Rightarrow> string" where
  "join_fields [] = []"
| "join_fields [f] = f"
| "join_fields (f # g # fs) = f @ ''; '' @ join_fields (g # fs)"

text \<open>\<open>reflect.Type.String\<close>, which is also what the verb \<open>%T\<close> prints.\<close>

fun type_String :: "go_type \<Rightarrow> string" where
  "type_String (Basic k) = Kind_String k"
| "type_String (Named pkg name) = (if pkg = [] then name else pkg @ ''.'' @ name)"
| "type_String (PtrTo t) = ''*'' @ type_String t"
| "type_String (MapOf k v) = ''map['' @ type_String k @ CHR '']'' # type_String v"
| "type_String (SliceOf t) = ''[]'' @ type_String t"
| "type_String (ArrayOf n t) = ''['' @ Itoa n @ '']'' @ type_String t"
| "type_String (ChanOf t) = ''chan '' @ type_String t"
| "type_String (FuncOf sig) = ''func'' @ sig"
| "type_String (StructOf fs) =
     (if fs = [] then ''struct {}''
      else ''struct { '' @ join_fields (map (\<lambda>(n, t). n @ '' '' @ type_String t) fs) @ '' }'')"
| "type_String (InterfaceOf ms) =
     (if ms = [] then ''interface {}'' else ''interface { '' @ ms @ '' }'')"

text \<open>
  Values carry their type by construction. \<open>int\<close>, \<open>uint\<close> and \<open>uintptr\<close> are 64 bits wide
  (the build flags of the convertor target a 64-bit platform); a float is its IEEE bit pattern;
  a string is its bytes. \<open>VNamed pkg name v\<close> is the value \<open>v\<close> at the defined type
  \<open>pkg.name\<close>. Pointers, maps, slices, channels and functions are references (an address in
  the heap below, or nil). \<open>VInterface t x\<close> is a value of the interface type \<open>t\<close> (a variable,
  a field or a map element of interface type) holding \<open>x\<close>.
\<close>

datatype go_value =
    VBool bool
  | VInt "64 word" | VInt8 "8 word" | VInt16 "16 word" | VInt32 "32 word" | VInt64 "64 word"
  | VUint "64 word" | VUint8 "8 word" | VUint16 "16 word" | VUint32 "32 word"
  | VUint64 "64 word" | VUintptr "64 word"
  | VFloat32 "32 word" | VFloat64 "64 word"
  | VComplex64 "32 word" "32 word" | VComplex128 "64 word" "64 word"
  | VString string
  | VUnsafePointer "nat option"
  | VNamed string string go_value
  | VPtr go_type "nat option"
  | VMap go_type go_type "nat option"
  | VSlice go_type "nat option"
  | VArray go_type "go_value list"
  | VChan go_type "nat option"
  | VFunc string "nat option"
  | VStruct "(string \<times> go_value) list"
  | VInterface go_type "go_value option"

fun Kind_of :: "go_value \<Rightarrow> Kind" where
  "Kind_of (VBool _) = Bool"
| "Kind_of (VInt _) = IntK"
| "Kind_of (VInt8 _) = Int8"
| "Kind_of (VInt16 _) = Int16"
| "Kind_of (VInt32 _) = Int32"
| "Kind_of (VInt64 _) = Int64"
| "Kind_of (VUint _) = Uint"
| "Kind_of (VUint8 _) = Uint8"
| "Kind_of (VUint16 _) = Uint16"
| "Kind_of (VUint32 _) = Uint32"
| "Kind_of (VUint64 _) = Uint64"
| "Kind_of (VUintptr _) = Uintptr"
| "Kind_of (VFloat32 _) = Float32"
| "Kind_of (VFloat64 _) = Float64"
| "Kind_of (VComplex64 _ _) = Complex64"
| "Kind_of (VComplex128 _ _) = Complex128"
| "Kind_of (VString _) = String"
| "Kind_of (VUnsafePointer _) = UnsafePointer"
| "Kind_of (VNamed _ _ v) = Kind_of v"
| "Kind_of (VPtr _ _) = Ptr"
| "Kind_of (VMap _ _ _) = Map"
| "Kind_of (VSlice _ _) = Slice"
| "Kind_of (VArray _ _) = Array"
| "Kind_of (VChan _ _) = Chan"
| "Kind_of (VFunc _ _) = Func"
| "Kind_of (VStruct _) = Struct"
| "Kind_of (VInterface _ _) = Interface"

fun type_of :: "go_value \<Rightarrow> go_type" where
  "type_of (VNamed pkg name _) = Named pkg name"
| "type_of (VPtr t _) = PtrTo t"
| "type_of (VMap k v _) = MapOf k v"
| "type_of (VSlice t _) = SliceOf t"
| "type_of (VArray t xs) = ArrayOf (length xs) t"
| "type_of (VChan t _) = ChanOf t"
| "type_of (VFunc sig _) = FuncOf sig"
| "type_of (VStruct fs) = StructOf (map (\<lambda>(n, v). (n, type_of v)) fs)"
| "type_of (VInterface t _) = t"
| "type_of v = Basic (Kind_of v)"

text \<open>
  The content of an \<open>interface{}\<close> such as \<open>arg\<close>: \<open>None\<close> is the nil interface,
  \<open>Some v\<close> holds the dynamic value \<open>v\<close>. \<open>reflect.ValueOf(arg).Kind()\<close> is \<open>Invalid\<close> for
  nil. \<open>reflect.Value.String\<close> gives the bytes of a string and \<open><T Value>\<close> for any other
  kind; \<open>%T\<close> prints \<open><nil>\<close> for nil.
\<close>

fun ValueOf_Kind :: "go_value option \<Rightarrow> Kind" where
  "ValueOf_Kind None = Invalid"
| "ValueOf_Kind (Some v) = Kind_of v"

fun underlying_string :: "go_value \<Rightarrow> string" where
  "underlying_string (VString x) = x"
| "underlying_string (VNamed _ _ v) = underlying_string v"
| "underlying_string _ = []"

fun ValueOf_String :: "go_value option \<Rightarrow> string" where
  "ValueOf_String None = ''<invalid Value>''"
| "ValueOf_String (Some v) =
     (if Kind_of v = String then underlying_string v
      else ''<'' @ type_String (type_of v) @ '' Value>'')"

fun Sprintf_T :: "go_value option \<Rightarrow> string" where
  "Sprintf_T None = ''<nil>''"
| "Sprintf_T (Some v) = type_String (type_of v)"

text \<open>
  The comma-ok type assertions \<open>x, ok := arg.(T)\<close>: they succeed when the dynamic type is
  identical to \<open>T\<close>, so a defined type with the same underlying type does not pass.
\<close>

fun assert_int :: "go_value option \<Rightarrow> 64 word option" where
  "assert_int (Some (VInt x)) = Some x"
| "assert_int _ = None"

fun assert_uint64 :: "go_value option \<Rightarrow> 64 word option" where
  "assert_uint64 (Some (VUint64 x)) = Some x"
| "assert_uint64 _ = None"

fun assert_bool :: "go_value option \<Rightarrow> bool option" where
  "assert_bool (Some (VBool x)) = Some x"
| "assert_bool _ = None"

fun assert_float64 :: "go_value option \<Rightarrow> 64 word option" where
  "assert_float64 (Some (VFloat64 x)) = Some x"
| "assert_float64 _ = None"

fun assert_string :: "go_value option \<Rightarrow> string option" where
  "assert_string (Some (VString x)) = Some x"
| "assert_string _ = None"

definition map_string_interface :: go_type where
  "map_string_interface = MapOf (Basic String) (InterfaceOf [])"

fun assert_map_string_interface :: "go_value option \<Rightarrow> go_value option" where
  "assert_map_string_interface (Some (VMap k v r)) =
     (if MapOf k v = map_string_interface then Some (VMap k v r) else None)"
| "assert_map_string_interface _ = None"

text \<open>
  \<open>strings.Split(s, sep)\<close> for a separator of one byte: the pieces between the separators,
  always at least one piece.
\<close>

fun Split :: "string \<Rightarrow> char \<Rightarrow> string list" where
  "Split [] sep = [[]]"
| "Split (c # cs) sep =
     (if c = sep then [] # Split cs sep
      else (case Split cs sep of [] \<Rightarrow> [[c]] | w # ws \<Rightarrow> (c # w) # ws))"

section \<open>The Python side of the boundary\<close>

text \<open>
  What crosses to Python. \<open>PyLong\<close>, \<open>PyFloat\<close> (the bits of a C double) and \<open>PyUnicode\<close>
  (the bytes of the string; their decoding is left to Python) are what \<open>Py_BuildValue\<close>
  builds; \<open>PyInstance cls args kwargs\<close> is the result of calling the class \<open>cls\<close> of the
  module \<open>out.ifxmap\<close>, the shadow object built from a handle. The module and the class are
  taken to exist: what Python does when they do not is outside the marshaller.
\<close>

datatype PyObject =
    Py_True
  | Py_False
  | PyLong int
  | PyFloat "64 word"
  | PyUnicode string
  | PyInstance string "PyObject list" "(string \<times> PyObject) list"

text \<open>
  The C helpers of the preamble. \<open>gopy_build_int64\<close> uses the format \<open>k\<close>, which reads its
  argument as an unsigned long; \<open>gopy_build_uint64\<close> uses \<open>K\<close> (unsigned long long); the
  handle is passed with \<open>L\<close> (long long). \<open>C.CString\<close> copies the bytes and appends a NUL;
  the format \<open>s\<close> reads a C string, which ends at its first NUL.
\<close>

definition gopy_build_int64 :: "64 word \<Rightarrow> PyObject" where
  "gopy_build_int64 val = PyLong (uint val)"

definition gopy_build_uint64 :: "64 word \<Rightarrow> PyObject" where
  "gopy_build_uint64 val = PyLong (uint val)"

definition gopy_build_float64 :: "64 word \<Rightarrow> PyObject" where
  "gopy_build_float64 val = PyFloat val"

definition CString :: "string \<Rightarrow> string" where
  "CString x = x @ [CHR 0x00]"

definition C_chars :: "string \<Rightarrow> string" where
  "C_chars cs = takeWhile (\<lambda>c. c \<noteq> CHR 0x00) cs"

definition gopy_build_string :: "string \<Rightarrow> PyObject" where
  "gopy_build_string val = PyUnicode (C_chars val)"

definition Py_BuildGenericStruct :: "string \<Rightarrow> 64 word \<Rightarrow> PyObject" where
  "Py_BuildGenericStruct objType handle = PyInstance (C_chars objType) [PyLong (sint handle)] []"

definition Build_Map_string_interface :: "64 word \<Rightarrow> PyObject" where
  "Build_Map_string_interface handle =
     PyInstance ''Map_string_interface_'' [] [(''handle'', PyLong (sint handle))]"

section \<open>The process state: the Go heap and the handle registry\<close>

text \<open>
  Variables whose address is taken and map objects live in a heap, addressed by position; a
  new object is appended, so its address is fresh. The registry of package \<open>gopyh\<close> is
  process-wide state beside it.
\<close>

datatype heap_obj =
    Variable go_value
  | MapObject "(go_value \<times> go_value) list"

record Entry =
  handle :: "64 word"
  boxedValue :: "go_value option"
  typeName :: string
  refcount :: nat

record process =
  heap :: "heap_obj list"
  ctr :: "64 word"
  handles :: "64 word \<rightharpoonup> Entry"

definition new :: "heap_obj \<Rightarrow> process \<Rightarrow> nat \<times> process" where
  "new obj s = (length (heap s), s\<lparr>heap := heap s @ [obj]\<rparr>)"

definition load :: "nat \<Rightarrow> process \<Rightarrow> heap_obj option" where
  "load a s = (if a < length (heap s) then Some (heap s ! a) else None)"

definition store :: "nat \<Rightarrow> heap_obj \<Rightarrow> process \<Rightarrow> process" where
  "store a obj s = (if a < length (heap s) then s\<lparr>heap := (heap s)[a := obj]\<rparr> else s)"

definition init :: process where
  "init = \<lparr>heap = [], ctr = 0, handles = Map.empty\<rparr>"

datatype registry_error = HandleNotFound

text \<open>
  Modelled from the spec: \<open>gopyh.Register\<close>, whose source is not part of the files at hand.
  It allocates a fresh handle from a monotonic 64-bit counter, stores the value with
  refcount 1 and returns the handle. (The counter is advanced first, so 0, the handle of the
  Python-side \<open>nil\<close>, is not issued before the counter wraps.)
\<close>

definition gopyh_Register ::
  "string \<Rightarrow> go_value option \<Rightarrow> process \<Rightarrow> 64 word \<times> process" where
  "gopyh_Register tn v s =
     (let h = ctr s + 1
      in (h, s\<lparr>ctr := h,
               handles := (handles s)(h \<mapsto>
                 \<lparr>handle = h, boxedValue = v, typeName = tn, refcount = 1\<rparr>)\<rparr>))"

text \<open>
  Modelled from the spec: \<open>gopyh.IncRef\<close>. It increments the refcount of a live entry; for
  an unknown or freed handle it is a no-op (the diagnostic it prints is not part of the
  state).
\<close>

definition gopyh_IncRef :: "64 word \<Rightarrow> process \<Rightarrow> process" where
  "gopyh_IncRef h s =
     (case handles s h of
        None \<Rightarrow> s
      | Some e \<Rightarrow>
          if refcount e = 0 then s
          else s\<lparr>handles := (handles s)(h \<mapsto> e\<lparr>refcount := refcount e + 1\<rparr>)\<rparr>)"

text \<open>
  Modelled from the spec: \<open>gopyh.DecRef\<close>. It decrements the refcount and removes the entry
  when the count reaches zero; for an already-zero or unknown handle it is a no-op.
\<close>

definition gopyh_DecRef :: "64 word \<Rightarrow> process \<Rightarrow> process" where
  "gopyh_DecRef h s =
     (case handles s h of
        None \<Rightarrow> s
      | Some e \<Rightarrow>
          if refcount e = 0 then s
          else if refcount e - 1 = 0 then s\<lparr>handles := (handles s)(h := None)\<rparr>
          else s\<lparr>handles := (handles s)(h \<mapsto> e\<lparr>refcount := refcount e - 1\<rparr>)\<rparr>)"

text \<open>
  Modelled from the spec: \<open>Lookup\<close>, the fetch of the live value behind a handle. It fails
  with \<open>HandleNotFound\<close> when the handle is unknown or its entry has been freed.
\<close>

definition Lookup :: "64 word \<Rightarrow> process \<Rightarrow> registry_error + go_value option" where
  "Lookup h s =
     (case handles s h of
        None \<Rightarrow> Inl HandleNotFound
      | Some e \<Rightarrow> if refcount e = 0 then Inl HandleNotFound else Inr (boxedValue e))"

text \<open>
  Modelled from the spec: \<open>gopyh.NumHandles\<close>, the number of entries in the table.
\<close>

definition gopyh_NumHandles :: "process \<Rightarrow> nat" where
  "gopyh_NumHandles s = card (dom (handles s))"

text \<open>
  The functions the generated preamble exports to Python: each forwards to \<open>gopyh\<close>.
\<close>

definition DecRef :: "64 word \<Rightarrow> process \<Rightarrow> process" where
  "DecRef h s = gopyh_DecRef h s"

definition IncRef :: "64 word \<Rightarrow> process \<Rightarrow> process" where
  "IncRef h s = gopyh_IncRef h s"

definition NumHandles :: "process \<Rightarrow> nat" where
  "NumHandles s = gopyh_NumHandles s"

section \<open>The marshaller\<close>

definition handleFromPtrGenericStruct ::
  "go_value option \<Rightarrow> string \<Rightarrow> process \<Rightarrow> 64 word \<times> process" where
  "handleFromPtrGenericStruct p structType s = gopyh_Register structType p s"

text \<open>
  A failed single-value type assertion and an index out of range are run-time panics.
\<close>

datatype panic = InterfaceConversion string | IndexOutOfRange

text \<open>
  \<open>&arg\<close> and \<open>&x\<close>: the variable escapes to the heap, and the pointer to it has the type
  \<open>*T\<close> of the variable's type \<open>T\<close>.
\<close>

definition address_of :: "go_type \<Rightarrow> go_value \<Rightarrow> process \<Rightarrow> go_value \<times> process" where
  "address_of t v s = (let (a, s') = new (Variable v) s in (VPtr t (Some a), s'))"

text \<open>
  \<open>reflect.ValueOf(arg)\<close> taken as a value of its own: a struct of the defined type
  \<open>reflect.Value\<close>. Its fields are internals of the runtime and are left out.
\<close>

definition reflect_ValueOf :: "go_value option \<Rightarrow> go_value" where
  "reflect_ValueOf arg = VNamed ''reflect'' ''Value'' (VStruct [])"

definition last_piece :: "string list \<Rightarrow> panic + string" where
  "last_piece pyObjectTypes =
     (if pyObjectTypes = [] then Inl IndexOutOfRange
      else Inr (pyObjectTypes ! (length pyObjectTypes - 1)))"

function Convert :: "go_value option \<Rightarrow> process \<Rightarrow> (panic + PyObject) \<times> process" where
  "Convert arg s =
     (case ValueOf_Kind arg of
        IntK \<Rightarrow>
          (case assert_int arg of
             None \<Rightarrow> (Inl (InterfaceConversion ''int''), s)
           | Some x \<Rightarrow> (Inr (gopy_build_int64 x), s))
      | Uint64 \<Rightarrow>
          (case assert_uint64 arg of
             None \<Rightarrow> (Inl (InterfaceConversion ''uint64''), s)
           | Some x \<Rightarrow> (Inr (gopy_build_uint64 x), s))
      | Bool \<Rightarrow>
          (case assert_bool arg of
             None \<Rightarrow> (Inl (InterfaceConversion ''bool''), s)
           | Some x \<Rightarrow> (Inr (if x then Py_True else Py_False), s))
      | Float64 \<Rightarrow>
          (case assert_float64 arg of
             None \<Rightarrow> (Inl (InterfaceConversion ''float64''), s)
           | Some x \<Rightarrow> (Inr (gopy_build_float64 x), s))
      | String \<Rightarrow>
          (case assert_string arg of
             None \<Rightarrow> (Inl (InterfaceConversion ''string''), s)
           | Some x \<Rightarrow> (Inr (gopy_build_string (CString x)), s))
      | Interface \<Rightarrow> Convert (Some (reflect_ValueOf arg)) s
      | Struct \<Rightarrow>
          (let objType = Sprintf_T arg;
               (p, s1) = address_of (InterfaceOf []) (VInterface (InterfaceOf []) arg) s;
               (y, s2) = handleFromPtrGenericStruct (Some p) objType s1;
               pyObjectTypes = Split objType (CHR ''.'')
           in case last_piece pyObjectTypes of
                Inl e \<Rightarrow> (Inl e, s2)
              | Inr n \<Rightarrow> (Inr (Py_BuildGenericStruct (CString n) y), s2))
      | Map \<Rightarrow>
          (let objType = Sprintf_T arg
           in case assert_map_string_interface arg of
                None \<Rightarrow>
                  (let e = ''Invalid type: '' @ Kind_String (ValueOf_Kind arg) @ '' value:''
                             @ ValueOf_String arg
                   in (Inr (gopy_build_string (CString e)), s))
              | Some x \<Rightarrow>
                  (let (p, s1) = address_of map_string_interface x s;
                       (y, s2) = handleFromPtrGenericStruct (Some p) objType s1
                   in (Inr (Build_Map_string_interface y), s2)))
      | Ptr \<Rightarrow>
          (let objType = Sprintf_T arg;
               (y, s2) = handleFromPtrGenericStruct arg objType s;
               pyObjectTypes = Split objType (CHR ''.'')
           in case last_piece pyObjectTypes of
                Inl e \<Rightarrow> (Inl e, s2)
              | Inr n \<Rightarrow> (Inr (Py_BuildGenericStruct (CString n) y), s2))
      | _ \<Rightarrow>
          (let e = Kind_String (ValueOf_Kind arg) @ ValueOf_String arg;
               x = CString e
           in (Inr (gopy_build_string x), s)))"
  by pat_completeness auto
termination
  by (relation "measure (\<lambda>(arg, s). if ValueOf_Kind arg = Interface then 1 else 0)")
     (auto simp: reflect_ValueOf_def)

section \<open>Calling the marshaller and reading through a handle\<close>

text \<open>
  The parameter of \<open>Convert\<close> has the type \<open>interface{}\<close>, so Go converts the argument at
  the call: a value of an interface type hands over what it holds (one level; what an
  interface holds is never itself of an interface type), any other value is held as it is.
\<close>

fun to_interface :: "go_value \<Rightarrow> go_value option" where
  "to_interface (VInterface t x) = x"
| "to_interface v = Some v"

text \<open>The address behind a pointer and the map object behind a map value.\<close>

fun pointee :: "go_value \<Rightarrow> nat option" where
  "pointee (VPtr _ a) = a"
| "pointee (VNamed _ _ v) = pointee v"
| "pointee _ = None"

fun map_ref :: "go_value \<Rightarrow> nat option" where
  "map_ref (VMap _ _ r) = r"
| "map_ref (VNamed _ _ v) = map_ref v"
| "map_ref _ = None"

datatype accessor_error = NoLiveHandle | WrongType | NoSuchKey

text \<open>
  Modelled from the spec: the generated accessors, which are written by the parts of the
  generator that are not among the files at hand. An accessor looks the handle up and goes
  through the boxed pointer to the variable it points to, to read it (\<open>load_handle\<close>) or to
  assign to it (\<open>store_handle\<close>).
\<close>

definition load_handle :: "64 word \<Rightarrow> process \<Rightarrow> accessor_error + heap_obj" where
  "load_handle h s =
     (case Lookup h s of
        Inl _ \<Rightarrow> Inl NoLiveHandle
      | Inr None \<Rightarrow> Inl WrongType
      | Inr (Some p) \<Rightarrow>
          (case pointee p of
             None \<Rightarrow> Inl WrongType
           | Some a \<Rightarrow> (case load a s of None \<Rightarrow> Inl WrongType | Some obj \<Rightarrow> Inr obj)))"

definition store_handle :: "64 word \<Rightarrow> heap_obj \<Rightarrow> process \<Rightarrow> process" where
  "store_handle h obj s =
     (case Lookup h s of
        Inl _ \<Rightarrow> s
      | Inr None \<Rightarrow> s
      | Inr (Some p) \<Rightarrow> (case pointee p of None \<Rightarrow> s | Some a \<Rightarrow> store a obj s))"

text \<open>
  Modelled from the spec: the reads of the proxy of a map, \<open>Map_string_interface_\<close>. They
  go through the handle to the live map object; the keys are read as they are, and an
  element read re-enters the marshaller on the element.
\<close>

definition boxed_map :: "64 word \<Rightarrow> process \<Rightarrow> accessor_error + (go_value \<times> go_value) list" where
  "boxed_map h s =
     (case load_handle h s of
        Inl e \<Rightarrow> Inl e
      | Inr (MapObject _) \<Rightarrow> Inl WrongType
      | Inr (Variable m) \<Rightarrow>
          (case map_ref m of
             None \<Rightarrow> Inl WrongType
           | Some r \<Rightarrow>
               (case load r s of
                  Some (MapObject kvs) \<Rightarrow> Inr kvs
                | _ \<Rightarrow> Inl WrongType)))"

definition proxy_keys :: "64 word \<Rightarrow> process \<Rightarrow> accessor_error + go_value list" where
  "proxy_keys h s = (case boxed_map h s of Inl e \<Rightarrow> Inl e | Inr kvs \<Rightarrow> Inr (map fst kvs))"

definition proxy_elem ::
  "64 word \<Rightarrow> string \<Rightarrow> process \<Rightarrow> accessor_error + (panic + PyObject) \<times> process" where
  "proxy_elem h key s =
     (case boxed_map h s of
        Inl e \<Rightarrow> Inl e
      | Inr kvs \<Rightarrow>
          (case map_of kvs (VString key) of
             None \<Rightarrow> Inl NoSuchKey
           | Some e \<Rightarrow> Inr (Convert (to_interface e) s)))"

declare Convert.simps [simp del]

section \<open>Facts about the helpers\<close>

lemma C_chars_CString: "C_chars (CString x) = takeWhile (\<lambda>c. c \<noteq> CHR 0x00) x"
  by (induction x) (simp_all add: C_chars_def CString_def)

lemma C_chars_append:
  "CHR 0x00 \<notin> set xs \<Longrightarrow> C_chars (CString (xs @ ys)) = xs @ C_chars (CString ys)"
  by (induction xs) (auto simp: C_chars_CString)

lemma Kind_String_no_NUL: "CHR 0x00 \<notin> set (Kind_String k)"
  by (cases k) simp_all

lemma Split_not_Nil: "Split str sep \<noteq> []"
  by (induction str) (simp_all split: list.splits)

lemma last_piece_Split: "last_piece (Split str sep) = Inr (last (Split str sep))"
  by (simp add: last_piece_def Split_not_Nil last_conv_nth)

lemma Convert_fallback:
  assumes "ValueOf_Kind arg \<notin> {IntK, Uint64, Bool, Float64, String, Interface, Struct, Map, Ptr}"
  shows "Convert arg s =
           (Inr (gopy_build_string (CString (Kind_String (ValueOf_Kind arg) @ ValueOf_String arg))),
            s)"
  using assms by (cases "ValueOf_Kind arg") (simp_all add: Convert.simps)

lemma to_interface_concrete: "Kind_of v \<noteq> Interface \<Longrightarrow> to_interface v = Some v"
  by (cases v) simp_all

text \<open>What each boxing case of \<open>Convert\<close> returns and does to the state.\<close>

lemma Convert_Struct:
  assumes "ValueOf_Kind arg = Struct"
  shows "Convert arg s =
     (Inr (Py_BuildGenericStruct (CString (last (Split (Sprintf_T arg) (CHR ''.'')))) (ctr s + 1)),
      s\<lparr>heap := heap s @ [Variable (VInterface (InterfaceOf []) arg)],
        ctr := ctr s + 1,
        handles := (handles s)(ctr s + 1 \<mapsto>
           \<lparr>handle = ctr s + 1,
            boxedValue = Some (VPtr (InterfaceOf []) (Some (length (heap s)))),
            typeName = Sprintf_T arg, refcount = 1\<rparr>)\<rparr>)"
  using assms
  by (simp add: Convert.simps address_of_def new_def handleFromPtrGenericStruct_def gopyh_Register_def
      last_piece_Split Let_def)

lemma Convert_Ptr:
  assumes "ValueOf_Kind arg = Ptr"
  shows "Convert arg s =
     (Inr (Py_BuildGenericStruct (CString (last (Split (Sprintf_T arg) (CHR ''.'')))) (ctr s + 1)),
      s\<lparr>ctr := ctr s + 1,
        handles := (handles s)(ctr s + 1 \<mapsto>
           \<lparr>handle = ctr s + 1, boxedValue = arg, typeName = Sprintf_T arg, refcount = 1\<rparr>)\<rparr>)"
  using assms
  by (simp add: Convert.simps handleFromPtrGenericStruct_def gopyh_Register_def last_piece_Split Let_def)

lemma Convert_Map:
  assumes "assert_map_string_interface arg = Some x"
  shows "Convert arg s =
     (Inr (Build_Map_string_interface (ctr s + 1)),
      s\<lparr>heap := heap s @ [Variable x],
        ctr := ctr s + 1,
        handles := (handles s)(ctr s + 1 \<mapsto>
           \<lparr>handle = ctr s + 1,
            boxedValue = Some (VPtr map_string_interface (Some (length (heap s)))),
            typeName = Sprintf_T arg, refcount = 1\<rparr>)\<rparr>)"
proof -
  have "ValueOf_Kind arg = Map"
    using assms by (cases arg rule: assert_map_string_interface.cases) (simp_all split: if_splits)
  then show ?thesis
    using assms
    by (simp add: Convert.simps address_of_def new_def handleFromPtrGenericStruct_def
        gopyh_Register_def Let_def)
qed

lemma handles_differ: "(c :: 64 word) + 1 \<noteq> c + 1 + 1"
  by simp

lemma sint_handles_differ: "sint ((c :: 64 word) + 1) \<noteq> sint (c + 1 + 1)"
  using word_eq_iff_signed [of "c + 1" "c + 1 + 1"] by simp

lemma gopy_build_int64_nonneg:
  assumes "0 \<le> sint x"
  shows "gopy_build_int64 x = PyLong (sint x)"
proof -
  have "sint x < 2 ^ 63"
    using sint_less [of x] by simp
  then have "sint x < 2 ^ 64"
    by simp
  then have "take_bit 64 (sint x) = sint x"
    using assms by (simp add: take_bit_int_eq_self)
  then have "uint x = sint x"
    using uint_sint [of x] by simp
  then show ?thesis
    by (simp add: gopy_build_int64_def)
qed

section \<open>The registry scenario\<close>

text \<open>
  C1. From an empty table, whatever the type name, the heap and the counter:
  \<open>Register(typeName, 42)\<close> gives \<open>h1\<close>; after \<open>IncRef(h1)\<close> and one \<open>DecRef(h1)\<close> the
  lookup of \<open>h1\<close> still succeeds and yields 42; after the second \<open>DecRef(h1)\<close> the entry is
  removed, the lookup fails with \<open>HandleNotFound\<close>, and \<open>NumHandles()\<close> is 0.
\<close>

theorem refcount_scenario:
  "let s0 = \<lparr>heap = hp, ctr = c, handles = Map.empty\<rparr>;
       (h1, s1) = gopyh_Register tn (Some (VInt 42)) s0;
       s2 = IncRef h1 s1;
       s3 = DecRef h1 s2;
       s4 = DecRef h1 s3
   in Lookup h1 s3 = Inr (Some (VInt 42)) \<and>
      handles s4 h1 = None \<and>
      Lookup h1 s4 = Inl HandleNotFound \<and>
      NumHandles s4 = 0"
  by (simp add: gopyh_Register_def IncRef_def gopyh_IncRef_def DecRef_def gopyh_DecRef_def
      Lookup_def NumHandles_def gopyh_NumHandles_def Let_def)

section \<open>Primitive values\<close>

text \<open>
  C7. In every process state, converting \<open>true\<close>, \<open>false\<close>, the int 2, the uint64 3, the
  float64 3.14159 (bits \<open>0x400921f9f01b866e\<close>) and the string \<open>sample\<close> returns the Python
  constant, integer, float or string for it, and returns the state as it was: the counter
  and the table of the registry are untouched, so no handle was registered and
  \<open>NumHandles()\<close> is unchanged.
\<close>

theorem Convert_primitives:
  "Convert (Some (VBool True)) s = (Inr Py_True, s) \<and>
   Convert (Some (VBool False)) s = (Inr Py_False, s) \<and>
   Convert (Some (VInt 2)) s = (Inr (PyLong 2), s) \<and>
   Convert (Some (VUint64 3)) s = (Inr (PyLong 3), s) \<and>
   Convert (Some (VFloat64 0x400921f9f01b866e)) s = (Inr (PyFloat 0x400921f9f01b866e), s) \<and>
   Convert (Some (VString ''sample'')) s = (Inr (PyUnicode ''sample''), s) \<and>
   NumHandles (snd (Convert (Some (VBool True)) s)) = NumHandles s \<and>
   NumHandles (snd (Convert (Some (VBool False)) s)) = NumHandles s \<and>
   NumHandles (snd (Convert (Some (VInt 2)) s)) = NumHandles s \<and>
   NumHandles (snd (Convert (Some (VUint64 3)) s)) = NumHandles s \<and>
   NumHandles (snd (Convert (Some (VFloat64 0x400921f9f01b866e)) s)) = NumHandles s \<and>
   NumHandles (snd (Convert (Some (VString ''sample'')) s)) = NumHandles s"
  by (simp add: Convert.simps gopy_build_int64_def gopy_build_uint64_def gopy_build_float64_def
      gopy_build_string_def CString_def C_chars_def)

section \<open>Signed integers\<close>

text \<open>
  C5, as stated, at the int64 value 5: the switch of \<open>Convert\<close> has a case for the kind
  \<open>reflect.Int\<close> only, so an int64 falls through to the string fallback and the result is the
  Python string \<open>int64<int64 Value>\<close>, not the integer 5.
\<close>

theorem Convert_int64_not_integer:
  "Convert (Some (VInt64 5)) init = (Inr (PyUnicode ''int64<int64 Value>''), init) \<and>
   fst (Convert (Some (VInt64 5)) init) \<noteq> Inr (PyLong 5)"
  by (simp add: Convert_fallback gopy_build_string_def CString_def C_chars_def)

text \<open>
  C5, amended. For every non-negative value of the predeclared type \<open>int\<close>, \<open>Convert\<close>
  returns the Python integer with that value and leaves the state unchanged. Values of the
  kinds int8, int16, int32 and int64 have no integer encoding: each is returned as the
  string made of its kind and \<open><T Value>\<close>.
\<close>

theorem Convert_int:
  assumes "0 \<le> sint x"
  shows "Convert (Some (VInt x)) s = (Inr (PyLong (sint x)), s) \<and>
         Convert (Some (VInt8 a)) s = (Inr (PyUnicode ''int8<int8 Value>''), s) \<and>
         Convert (Some (VInt16 b)) s = (Inr (PyUnicode ''int16<int16 Value>''), s) \<and>
         Convert (Some (VInt32 c)) s = (Inr (PyUnicode ''int32<int32 Value>''), s) \<and>
         Convert (Some (VInt64 d)) s = (Inr (PyUnicode ''int64<int64 Value>''), s)"
proof -
  have "Convert (Some (VInt x)) s = (Inr (PyLong (sint x)), s)"
    using assms by (simp add: Convert.simps gopy_build_int64_nonneg)
  then show ?thesis
    by (simp add: Convert_fallback gopy_build_string_def CString_def C_chars_def)
qed

theorem Convert_int_witness:
  "(0::int) \<le> sint (2 :: 64 word) \<and>
   Convert (Some (VInt 2)) init = (Inr (PyLong 2), init) \<and>
   Convert (Some (VInt8 (-1))) init = (Inr (PyUnicode ''int8<int8 Value>''), init)"
  using Convert_int [of 2 init "-1"] by simp

section \<open>Defined types of a primitive kind\<close>

text \<open>
  C2. \<open>Convert\<close> does not return for every input. A value of a defined type whose
  underlying type is \<open>int\<close>, such as \<open>time.Month(3)\<close>, has the kind \<open>reflect.Int\<close>, and the
  single-value assertion \<open>arg.(int)\<close> in that case panics, since the dynamic type is not
  \<open>int\<close>. The state is the one before the call.
\<close>

theorem Convert_defined_int_panics:
  "Convert (Some (VNamed ''time'' ''Month'' (VInt 3))) s = (Inl (InterfaceConversion ''int''), s)"
  by (simp add: Convert.simps)

section \<open>Unsupported shapes\<close>

text \<open>
  C6. For every input whose kind has no case in the switch (nil, the other numeric widths,
  complex numbers, arrays, slices, channels, functions, unsafe pointers), \<open>Convert\<close> does not
  panic and does not touch the state: it returns a Python string that starts with the name
  of the kind, followed by the rendering \<open>reflect.Value.String\<close> gives of the value, which is
  \<open><T Value>\<close> for its type \<open>T\<close> and \<open><invalid Value>\<close> for nil (cut at a NUL byte, if the type's
  name had one).
\<close>

theorem Convert_unsupported_shape:
  assumes "ValueOf_Kind arg \<notin> {IntK, Uint64, Bool, Float64, String, Interface, Struct, Map, Ptr}"
  shows "Convert arg s =
           (Inr (PyUnicode (Kind_String (ValueOf_Kind arg) @ C_chars (CString (ValueOf_String arg)))),
            s) \<and>
         ValueOf_String arg =
           (case arg of
              None \<Rightarrow> ''<invalid Value>''
            | Some v \<Rightarrow> ''<'' @ type_String (type_of v) @ '' Value>'')"
proof -
  have "ValueOf_Kind arg \<noteq> String"
    using assms by auto
  then have r: "ValueOf_String arg =
      (case arg of
         None \<Rightarrow> ''<invalid Value>''
       | Some v \<Rightarrow> ''<'' @ type_String (type_of v) @ '' Value>'')"
    by (cases arg) simp_all
  show ?thesis
    using r by (simp add: Convert_fallback [OF assms] gopy_build_string_def
        C_chars_append [OF Kind_String_no_NUL])
qed

theorem Convert_unsupported_shape_witness:
  "ValueOf_Kind (Some (VChan (Basic IntK) None))
     \<notin> {IntK, Uint64, Bool, Float64, String, Interface, Struct, Map, Ptr} \<and>
   Convert (Some (VChan (Basic IntK) None)) init = (Inr (PyUnicode ''chan<chan int Value>''), init)"
  using Convert_unsupported_shape [of "Some (VChan (Basic IntK) None)" init]
  by (simp add: C_chars_def CString_def)

section \<open>Maps of another type\<close>

text \<open>
  C10. For every value of kind map whose type is not \<open>map[string]interface {}\<close> (another key
  or element type, or a defined map type), \<open>Convert\<close> returns the Python string
  \<open>Invalid type: map value:<T Value>\<close> for its type \<open>T\<close> (cut at a NUL byte, if the type's name
  had one) and returns the state as it was: nothing is registered and no handle is
  allocated.
\<close>

theorem Convert_map_invalid:
  assumes "Kind_of v = Map" and "type_of v \<noteq> map_string_interface"
  shows "Convert (Some v) s =
           (Inr (PyUnicode (''Invalid type: '' @ Kind_String (Kind_of v) @ '' value:'' @
                   C_chars (CString (''<'' @ type_String (type_of v) @ '' Value>'')))), s) \<and>
         NumHandles (snd (Convert (Some v) s)) = NumHandles s"
proof -
  have a: "assert_map_string_interface (Some v) = None"
    using assms by (cases v) simp_all
  have n: "CHR 0x00 \<notin> set ''Invalid type: map value:''"
    by simp
  show ?thesis
    using assms(1) a C_chars_append [OF n, of "''<'' @ type_String (type_of v) @ '' Value>''"]
    by (simp add: Convert.simps gopy_build_string_def)
qed

theorem Convert_map_invalid_witness:
  "Kind_of (VMap (Basic String) (Basic String) (Some 0)) = Map \<and>
   type_of (VMap (Basic String) (Basic String) (Some 0)) \<noteq> map_string_interface \<and>
   Convert (Some (VMap (Basic String) (Basic String) (Some 0))) init =
     (Inr (PyUnicode ''Invalid type: map value:<map[string]string Value>''), init) \<and>
   Convert (Some (VMap (Basic IntK) (InterfaceOf []) None)) init =
     (Inr (PyUnicode ''Invalid type: map value:<map[int]interface {} Value>''), init)"
  using Convert_map_invalid [of "VMap (Basic String) (Basic String) (Some 0)" init]
    Convert_map_invalid [of "VMap (Basic IntK) (InterfaceOf []) None" init]
  by (simp add: C_chars_def CString_def map_string_interface_def)

section \<open>The case for the kind interface\<close>




section \<open>Boxing a struct value and boxing a pointer\<close>

text \<open>
  C3. Let \<open>a\<close> be any address of the heap before the call, such as the variable holding the
  caller's struct. When \<open>Convert\<close> receives a struct by value, what it registers is a pointer
  to a fresh variable holding the copy it received: reading through the handle gives that
  copy, an assignment by the caller to \<open>a\<close> does not change what is read through the handle,
  and an assignment through the handle does not change what the caller reads at \<open>a\<close>. When
  \<open>Convert\<close> receives a pointer to \<open>a\<close>, it registers that pointer and copies nothing: an
  assignment by the caller to \<open>a\<close> is read through the handle, and an assignment through the
  handle is read by the caller at \<open>a\<close>. (The copy is the one Go makes of a struct passed by
  value: a reference held in one of its fields still refers to what it referred to.)
\<close>

theorem boxing_copy_or_alias:
  assumes "a < length (heap s)"
  shows "(ValueOf_Kind arg = Struct \<longrightarrow>
           (\<exists>n h s1. Convert arg s = (Inr (Py_BuildGenericStruct n h), s1) \<and>
              load_handle h s1 = Inr (Variable (VInterface (InterfaceOf []) arg)) \<and>
              load_handle h (store a obj s1) = load_handle h s1 \<and>
              load a (store_handle h obj s1) = load a s)) \<and>
         (Kind_of p = Ptr \<and> pointee p = Some a \<longrightarrow>
           (\<exists>n h s1. Convert (Some p) s = (Inr (Py_BuildGenericStruct n h), s1) \<and>
              heap s1 = heap s \<and>
              Lookup h s1 = Inr (Some p) \<and>
              load_handle h (store a obj s1) = Inr obj \<and>
              load a (store_handle h obj s1) = Some obj))"
proof (intro conjI impI)
  assume k: "ValueOf_Kind arg = Struct"
  define n where "n = CString (last (Split (Sprintf_T arg) (CHR ''.'')))"
  define h where "h = ctr s + 1"
  define s1 where "s1 = s\<lparr>heap := heap s @ [Variable (VInterface (InterfaceOf []) arg)],
        ctr := ctr s + 1,
        handles := (handles s)(ctr s + 1 \<mapsto>
           \<lparr>handle = ctr s + 1,
            boxedValue = Some (VPtr (InterfaceOf []) (Some (length (heap s)))),
            typeName = Sprintf_T arg, refcount = 1\<rparr>)\<rparr>"
  have c: "Convert arg s = (Inr (Py_BuildGenericStruct n h), s1)"
    unfolding n_def h_def s1_def by (rule Convert_Struct [OF k])
  have 1: "load_handle h s1 = Inr (Variable (VInterface (InterfaceOf []) arg))"
    by (simp add: h_def s1_def load_handle_def Lookup_def load_def)
  have 2: "load_handle h (store a obj s1) = load_handle h s1"
    using assms
    by (simp add: h_def s1_def load_handle_def Lookup_def load_def store_def nth_append)
  have 3: "load a (store_handle h obj s1) = load a s"
    using assms
    by (simp add: h_def s1_def store_handle_def Lookup_def load_def store_def nth_append)
  show "\<exists>n h s1. Convert arg s = (Inr (Py_BuildGenericStruct n h), s1) \<and>
          load_handle h s1 = Inr (Variable (VInterface (InterfaceOf []) arg)) \<and>
          load_handle h (store a obj s1) = load_handle h s1 \<and>
          load a (store_handle h obj s1) = load a s"
    using c 1 2 3 by blast
next
  assume "Kind_of p = Ptr \<and> pointee p = Some a"
  then have k: "ValueOf_Kind (Some p) = Ptr" and q: "pointee p = Some a"
    by simp_all
  define n where "n = CString (last (Split (Sprintf_T (Some p)) (CHR ''.'')))"
  define h where "h = ctr s + 1"
  define s1 where "s1 = s\<lparr>ctr := ctr s + 1,
        handles := (handles s)(ctr s + 1 \<mapsto>
           \<lparr>handle = ctr s + 1, boxedValue = Some p, typeName = Sprintf_T (Some p),
            refcount = 1\<rparr>)\<rparr>"
  have c: "Convert (Some p) s = (Inr (Py_BuildGenericStruct n h), s1)"
    unfolding n_def h_def s1_def by (rule Convert_Ptr [OF k])
  have 0: "heap s1 = heap s"
    by (simp add: s1_def)
  have 1: "Lookup h s1 = Inr (Some p)"
    by (simp add: h_def s1_def Lookup_def)
  have 2: "load_handle h (store a obj s1) = Inr obj"
    using assms q by (simp add: h_def s1_def load_handle_def Lookup_def load_def store_def)
  have 3: "load a (store_handle h obj s1) = Some obj"
    using assms q by (simp add: h_def s1_def store_handle_def Lookup_def load_def store_def)
  show "\<exists>n h s1. Convert (Some p) s = (Inr (Py_BuildGenericStruct n h), s1) \<and>
          heap s1 = heap s \<and>
          Lookup h s1 = Inr (Some p) \<and>
          load_handle h (store a obj s1) = Inr obj \<and>
          load a (store_handle h obj s1) = Some obj"
    using c 0 1 2 3 by blast
qed

text \<open>
  The witness: the caller's \<open>TestStruct{Value: 12}\<close> lives at address 0 and is later
  assigned \<open>TestStruct{Value: 13}\<close>.
\<close>

theorem boxing_copy_or_alias_witness:
  "(0::nat) < length (heap \<lparr>heap = [Variable (VNamed ''ifxmap'' ''TestStruct''
                                          (VStruct [(''Value'', VInt 12)]))],
                           ctr = 0, handles = Map.empty\<rparr>) \<and>
   ValueOf_Kind (Some (VNamed ''ifxmap'' ''TestStruct'' (VStruct [(''Value'', VInt 12)]))) = Struct \<and>
   Kind_of (VPtr (Named ''ifxmap'' ''TestStruct'') (Some 0)) = Ptr \<and>
   pointee (VPtr (Named ''ifxmap'' ''TestStruct'') (Some 0)) = Some 0 \<and>
   (\<exists>n h s1.
      Convert (Some (VNamed ''ifxmap'' ''TestStruct'' (VStruct [(''Value'', VInt 12)])))
        \<lparr>heap = [Variable (VNamed ''ifxmap'' ''TestStruct'' (VStruct [(''Value'', VInt 12)]))],
         ctr = 0, handles = Map.empty\<rparr>
        = (Inr (Py_BuildGenericStruct n h), s1) \<and>
      load_handle h s1 =
        Inr (Variable (VInterface (InterfaceOf [])
               (Some (VNamed ''ifxmap'' ''TestStruct'' (VStruct [(''Value'', VInt 12)]))))) \<and>
      load_handle h
        (store 0 (Variable (VNamed ''ifxmap'' ''TestStruct'' (VStruct [(''Value'', VInt 13)]))) s1)
        = load_handle h s1 \<and>
      load 0
        (store_handle h
           (Variable (VNamed ''ifxmap'' ''TestStruct'' (VStruct [(''Value'', VInt 13)]))) s1)
        = load 0 \<lparr>heap = [Variable (VNamed ''ifxmap'' ''TestStruct''
                                      (VStruct [(''Value'', VInt 12)]))],
                   ctr = 0, handles = Map.empty\<rparr>) \<and>
   (\<exists>n h s1.
      Convert (Some (VPtr (Named ''ifxmap'' ''TestStruct'') (Some 0)))
        \<lparr>heap = [Variable (VNamed ''ifxmap'' ''TestStruct'' (VStruct [(''Value'', VInt 12)]))],
         ctr = 0, handles = Map.empty\<rparr>
        = (Inr (Py_BuildGenericStruct n h), s1) \<and>
      heap s1 = heap \<lparr>heap = [Variable (VNamed ''ifxmap'' ''TestStruct''
                                          (VStruct [(''Value'', VInt 12)]))],
                       ctr = 0, handles = Map.empty\<rparr> \<and>
      Lookup h s1 = Inr (Some (VPtr (Named ''ifxmap'' ''TestStruct'') (Some 0))) \<and>
      load_handle h
        (store 0 (Variable (VNamed ''ifxmap'' ''TestStruct'' (VStruct [(''Value'', VInt 13)]))) s1)
        = Inr (Variable (VNamed ''ifxmap'' ''TestStruct'' (VStruct [(''Value'', VInt 13)]))) \<and>
      load 0
        (store_handle h
           (Variable (VNamed ''ifxmap'' ''TestStruct'' (VStruct [(''Value'', VInt 13)]))) s1)
        = Some (Variable (VNamed ''ifxmap'' ''TestStruct'' (VStruct [(''Value'', VInt 13)]))))"
  using boxing_copy_or_alias
    [of 0 "\<lparr>heap = [Variable (VNamed ''ifxmap'' ''TestStruct'' (VStruct [(''Value'', VInt 12)]))],
            ctr = 0, handles = Map.empty\<rparr>"
        "Some (VNamed ''ifxmap'' ''TestStruct'' (VStruct [(''Value'', VInt 12)]))"
        "Variable (VNamed ''ifxmap'' ''TestStruct'' (VStruct [(''Value'', VInt 13)]))"
        "VPtr (Named ''ifxmap'' ''TestStruct'') (Some 0)"]
  by simp

section \<open>Converting the same composite value twice\<close>

text \<open>
  C9. For every value that \<open>Convert\<close> boxes (a struct, a pointer, or a
  \<open>map[string]interface {}\<close>), converting it and then converting it again does not panic
  and returns two construction descriptors of the same class that carry two different
  handles; both handles are live afterwards. Nothing is looked up by value: each conversion
  registers anew.
\<close>

theorem Convert_twice_distinct_handles:
  assumes "ValueOf_Kind arg = Struct \<or> ValueOf_Kind arg = Ptr \<or>
           assert_map_string_interface arg = Some x"
  shows "\<exists>r1 r2 h1 h2 s1 s2.
           Convert arg s = (Inr r1, s1) \<and> Convert arg s1 = (Inr r2, s2) \<and>
           ((\<exists>n. r1 = Py_BuildGenericStruct n h1 \<and> r2 = Py_BuildGenericStruct n h2) \<or>
            (r1 = Build_Map_string_interface h1 \<and> r2 = Build_Map_string_interface h2)) \<and>
           h1 \<noteq> h2 \<and> r1 \<noteq> r2 \<and>
           Lookup h1 s2 \<noteq> Inl HandleNotFound \<and> Lookup h2 s2 \<noteq> Inl HandleNotFound"
proof -
  define h1 where "h1 = ctr s + 1"
  define h2 where "h2 = ctr s + 1 + 1"
  have d: "h1 \<noteq> h2"
    unfolding h1_def h2_def by (rule handles_differ)
  have i: "sint h1 \<noteq> sint h2"
    unfolding h1_def h2_def by (rule sint_handles_differ)
  consider (S) "ValueOf_Kind arg = Struct" | (P) "ValueOf_Kind arg = Ptr"
    | (M) "assert_map_string_interface arg = Some x"
    using assms by blast
  then show ?thesis
  proof cases
    case S
    define n where "n = CString (last (Split (Sprintf_T arg) (CHR ''.'')))"
    define s1 where "s1 = snd (Convert arg s)"
    define s2 where "s2 = snd (Convert arg s1)"
    have c1: "Convert arg s = (Inr (Py_BuildGenericStruct n h1), s1)"
      by (simp add: s1_def n_def h1_def Convert_Struct [OF S])
    have k: "ctr s1 = ctr s + 1"
      by (simp add: s1_def Convert_Struct [OF S])
    have c2: "Convert arg s1 = (Inr (Py_BuildGenericStruct n h2), s2)"
      by (simp add: s2_def n_def h2_def k Convert_Struct [OF S])
    have l1: "Lookup h1 s2 \<noteq> Inl HandleNotFound"
      using d by (simp add: s2_def s1_def h1_def h2_def Convert_Struct [OF S] Lookup_def)
    have l2: "Lookup h2 s2 \<noteq> Inl HandleNotFound"
      by (simp add: s2_def s1_def h2_def Convert_Struct [OF S] Lookup_def)
    have r: "Py_BuildGenericStruct n h1 \<noteq> Py_BuildGenericStruct n h2"
      using i by (simp add: Py_BuildGenericStruct_def)
    show ?thesis
      using c1 c2 d r l1 l2 by blast
  next
    case P
    define n where "n = CString (last (Split (Sprintf_T arg) (CHR ''.'')))"
    define s1 where "s1 = snd (Convert arg s)"
    define s2 where "s2 = snd (Convert arg s1)"
    have c1: "Convert arg s = (Inr (Py_BuildGenericStruct n h1), s1)"
      by (simp add: s1_def n_def h1_def Convert_Ptr [OF P])
    have k: "ctr s1 = ctr s + 1"
      by (simp add: s1_def Convert_Ptr [OF P])
    have c2: "Convert arg s1 = (Inr (Py_BuildGenericStruct n h2), s2)"
      by (simp add: s2_def n_def h2_def k Convert_Ptr [OF P])
    have l1: "Lookup h1 s2 \<noteq> Inl HandleNotFound"
      using d by (simp add: s2_def s1_def h1_def h2_def Convert_Ptr [OF P] Lookup_def)
    have l2: "Lookup h2 s2 \<noteq> Inl HandleNotFound"
      by (simp add: s2_def s1_def h2_def Convert_Ptr [OF P] Lookup_def)
    have r: "Py_BuildGenericStruct n h1 \<noteq> Py_BuildGenericStruct n h2"
      using i by (simp add: Py_BuildGenericStruct_def)
    show ?thesis
      using c1 c2 d r l1 l2 by blast
  next
    case M
    define s1 where "s1 = snd (Convert arg s)"
    define s2 where "s2 = snd (Convert arg s1)"
    have c1: "Convert arg s = (Inr (Build_Map_string_interface h1), s1)"
      by (simp add: s1_def h1_def Convert_Map [OF M])
    have k: "ctr s1 = ctr s + 1"
      by (simp add: s1_def Convert_Map [OF M])
    have c2: "Convert arg s1 = (Inr (Build_Map_string_interface h2), s2)"
      by (simp add: s2_def h2_def k Convert_Map [OF M])
    have l1: "Lookup h1 s2 \<noteq> Inl HandleNotFound"
      using d by (simp add: s2_def s1_def h1_def h2_def Convert_Map [OF M] Lookup_def)
    have l2: "Lookup h2 s2 \<noteq> Inl HandleNotFound"
      by (simp add: s2_def s1_def h2_def Convert_Map [OF M] Lookup_def)
    have r: "Build_Map_string_interface h1 \<noteq> Build_Map_string_interface h2"
      using i by (simp add: Build_Map_string_interface_def)
    show ?thesis
      using c1 c2 d r l1 l2 by blast
  qed
qed

text \<open>
  The witness: \<open>TestStruct{Value: 6}\<close> converted twice from the initial state gives the
  descriptors \<open>TestStruct(1)\<close> and \<open>TestStruct(2)\<close>.
\<close>

theorem Convert_twice_distinct_handles_witness:
  "ValueOf_Kind (Some (VNamed ''ifxmap'' ''TestStruct'' (VStruct [(''Value'', VInt 6)]))) = Struct \<and>
   (\<exists>r1 r2 h1 h2 s1 s2.
      Convert (Some (VNamed ''ifxmap'' ''TestStruct'' (VStruct [(''Value'', VInt 6)]))) init
        = (Inr r1, s1) \<and>
      Convert (Some (VNamed ''ifxmap'' ''TestStruct'' (VStruct [(''Value'', VInt 6)]))) s1
        = (Inr r2, s2) \<and>
      ((\<exists>n. r1 = Py_BuildGenericStruct n h1 \<and> r2 = Py_BuildGenericStruct n h2) \<or>
       (r1 = Build_Map_string_interface h1 \<and> r2 = Build_Map_string_interface h2)) \<and>
      h1 \<noteq> h2 \<and> r1 \<noteq> r2 \<and>
      Lookup h1 s2 \<noteq> Inl HandleNotFound \<and> Lookup h2 s2 \<noteq> Inl HandleNotFound) \<and>
   fst (Convert (Some (VNamed ''ifxmap'' ''TestStruct'' (VStruct [(''Value'', VInt 6)]))) init)
     = Inr (PyInstance ''TestStruct'' [PyLong 1] []) \<and>
   fst (Convert (Some (VNamed ''ifxmap'' ''TestStruct'' (VStruct [(''Value'', VInt 6)])))
          (snd (Convert (Some (VNamed ''ifxmap'' ''TestStruct'' (VStruct [(''Value'', VInt 6)])))
                  init)))
     = Inr (PyInstance ''TestStruct'' [PyLong 2] [])"
  using Convert_twice_distinct_handles
    [of "Some (VNamed ''ifxmap'' ''TestStruct'' (VStruct [(''Value'', VInt 6)]))" x init]
  by (simp add: Convert_Struct init_def Py_BuildGenericStruct_def C_chars_CString)

section \<open>Converting a map and reading it through its proxy\<close>

text \<open>
  C8. Let the map \<open>{"string": "abcd", "int": 1, "float": 2.69}\<close> (2.69 has the bits
  \<open>0x4005851eb851eb85\<close>) be the map object at \<open>m\<close>, in a state whose table is finite and does
  not hold the next handle. Converting the map returns the descriptor of a
  \<open>Map_string_interface_\<close> with a handle \<open>h\<close>; the counter has advanced once and the table has
  gained \<open>h\<close> and nothing else, so \<open>NumHandles()\<close> has grown by exactly one. Read through \<open>h\<close>,
  the proxy has the keys \<open>string\<close>, \<open>int\<close> and \<open>float\<close> and no other, and its elements are
  the Python string \<open>abcd\<close>, the integer 1 and the float 2.69; the reads allocate nothing.
\<close>

theorem Convert_map_one_handle:
  assumes "load m s = Some (MapObject
     [(VString ''string'', VInterface (InterfaceOf []) (Some (VString ''abcd''))),
      (VString ''int'', VInterface (InterfaceOf []) (Some (VInt 1))),
      (VString ''float'', VInterface (InterfaceOf []) (Some (VFloat64 0x4005851eb851eb85)))])"
    and "finite (dom (handles s))" and "ctr s + 1 \<notin> dom (handles s)"
  shows "\<exists>h s1.
      Convert (Some (VMap (Basic String) (InterfaceOf []) (Some m))) s
        = (Inr (Build_Map_string_interface h), s1) \<and>
      ctr s1 = ctr s + 1 \<and>
      dom (handles s1) = insert h (dom (handles s)) \<and>
      NumHandles s1 = NumHandles s + 1 \<and>
      proxy_keys h s1 = Inr [VString ''string'', VString ''int'', VString ''float''] \<and>
      proxy_elem h ''string'' s1 = Inr (Inr (PyUnicode ''abcd''), s1) \<and>
      proxy_elem h ''int'' s1 = Inr (Inr (PyLong 1), s1) \<and>
      proxy_elem h ''float'' s1 = Inr (Inr (PyFloat 0x4005851eb851eb85), s1)"
proof -
  define arg where "arg = Some (VMap (Basic String) (InterfaceOf []) (Some m))"
  define h where "h = ctr s + 1"
  define s1 where "s1 = snd (Convert arg s)"
  have a: "assert_map_string_interface arg = Some (VMap (Basic String) (InterfaceOf []) (Some m))"
    by (simp add: arg_def map_string_interface_def)
  note c = Convert_Map [OF a]
  have ml: "m < length (heap s)"
    using assms(1) by (simp add: load_def split: if_splits)
  have c1: "Convert arg s = (Inr (Build_Map_string_interface h), s1)"
    by (simp add: s1_def h_def c)
  have k: "ctr s1 = ctr s + 1"
    by (simp add: s1_def c)
  have d: "dom (handles s1) = insert h (dom (handles s))"
    by (simp add: s1_def h_def c)
  have n: "NumHandles s1 = NumHandles s + 1"
    using assms(2,3) by (simp add: NumHandles_def gopyh_NumHandles_def d h_def)
  have bm: "boxed_map h s1 = Inr
     [(VString ''string'', VInterface (InterfaceOf []) (Some (VString ''abcd''))),
      (VString ''int'', VInterface (InterfaceOf []) (Some (VInt 1))),
      (VString ''float'', VInterface (InterfaceOf []) (Some (VFloat64 0x4005851eb851eb85)))]"
    using assms(1) ml
    by (simp add: boxed_map_def load_handle_def Lookup_def s1_def h_def c load_def nth_append
        split: if_splits)
  have pk: "proxy_keys h s1 = Inr [VString ''string'', VString ''int'', VString ''float'']"
    by (simp add: proxy_keys_def bm)
  have e1: "proxy_elem h ''string'' s1 = Inr (Inr (PyUnicode ''abcd''), s1)"
    by (simp add: proxy_elem_def bm Convert.simps gopy_build_string_def C_chars_def CString_def)
  have e2: "proxy_elem h ''int'' s1 = Inr (Inr (PyLong 1), s1)"
    by (simp add: proxy_elem_def bm Convert.simps gopy_build_int64_def)
  have e3: "proxy_elem h ''float'' s1 = Inr (Inr (PyFloat 0x4005851eb851eb85), s1)"
    by (simp add: proxy_elem_def bm Convert.simps gopy_build_float64_def)
  show ?thesis
    using c1 k d n pk e1 e2 e3 unfolding arg_def by blast
qed

theorem Convert_map_one_handle_witness:
  "load 0 \<lparr>heap = [MapObject
       [(VString ''string'', VInterface (InterfaceOf []) (Some (VString ''abcd''))),
        (VString ''int'', VInterface (InterfaceOf []) (Some (VInt 1))),
        (VString ''float'', VInterface (InterfaceOf []) (Some (VFloat64 0x4005851eb851eb85)))]],
       ctr = 0, handles = Map.empty\<rparr>
     = Some (MapObject
       [(VString ''string'', VInterface (InterfaceOf []) (Some (VString ''abcd''))),
        (VString ''int'', VInterface (InterfaceOf []) (Some (VInt 1))),
        (VString ''float'', VInterface (InterfaceOf []) (Some (VFloat64 0x4005851eb851eb85)))]) \<and>
   (\<exists>h s1.
      Convert (Some (VMap (Basic String) (InterfaceOf []) (Some 0)))
        \<lparr>heap = [MapObject
           [(VString ''string'', VInterface (InterfaceOf []) (Some (VString ''abcd''))),
            (VString ''int'', VInterface (InterfaceOf []) (Some (VInt 1))),
            (VString ''float'', VInterface (InterfaceOf []) (Some (VFloat64 0x4005851eb851eb85)))]],
         ctr = 0, handles = Map.empty\<rparr>
        = (Inr (Build_Map_string_interface h), s1) \<and>
      ctr s1 = 1 \<and>
      dom (handles s1) = {h} \<and>
      NumHandles s1 = 1 \<and>
      proxy_keys h s1 = Inr [VString ''string'', VString ''int'', VString ''float''] \<and>
      proxy_elem h ''string'' s1 = Inr (Inr (PyUnicode ''abcd''), s1) \<and>
      proxy_elem h ''int'' s1 = Inr (Inr (PyLong 1), s1) \<and>
      proxy_elem h ''float'' s1 = Inr (Inr (PyFloat 0x4005851eb851eb85), s1))"
  using Convert_map_one_handle
    [of 0 "\<lparr>heap = [MapObject
       [(VString ''string'', VInterface (InterfaceOf []) (Some (VString ''abcd''))),
        (VString ''int'', VInterface (InterfaceOf []) (Some (VInt 1))),
        (VString ''float'', VInterface (InterfaceOf []) (Some (VFloat64 0x4005851eb851eb85)))]],
       ctr = 0, handles = Map.empty\<rparr>"]
  by (simp add: load_def NumHandles_def gopyh_NumHandles_def)

end
